theory Spec2Isabelle
  imports Main "HOL-Library.Multiset"
begin

section \<open>The file registry of files.py: data model\<close>

text \<open>
  The handlers of \<^verbatim>\<open>files.py\<close> coordinate two resources: the relational store
  behind the models \<^verbatim>\<open>Archivo\<close>, \<^verbatim>\<open>Materia\<close>, \<^verbatim>\<open>Curso\<close>, \<^verbatim>\<open>Docente\<close>, and the directory
  \<^verbatim>\<open>uploads\<close>. The models are imported from \<^verbatim>\<open>models.py\<close>; a row carries the columns
  the handlers read and write. A table is the list of its rows in insertion order, so
  \<^verbatim>\<open>query.filter_by(...).first()\<close> is \<open>find\<close>. Timestamps are natural numbers.
\<close>

record materia =
  m_id :: nat
  m_nombre :: string

record curso =
  c_id :: nat
  c_docente_id :: nat
  c_materia_id :: nat
  c_periodo :: string

record archivo =
  a_id :: nat
  a_nombre :: string
  a_fecha_subida :: nat
  a_docente_id :: nat
  a_curso_id :: nat

record docente =
  d_id :: nat
  d_nombre :: string

record database =
  materias :: "materia list"
  cursos :: "curso list"
  archivos :: "archivo list"
  docentes :: "docente list"

text \<open>
  The directory \<^verbatim>\<open>uploads\<close> maps a name (the second argument of
  \<^verbatim>\<open>os.path.join(UPLOAD_FOLDER, name)\<close>) to the bytes stored under it. The directory
  itself exists from import time on (\<^verbatim>\<open>os.makedirs(UPLOAD_FOLDER, exist_ok=True)\<close>), so
  the empty name, which joins to \<^verbatim>\<open>uploads/\<close>, exists and is not a regular file.
\<close>

type_synonym blobs = "string \<rightharpoonup> string"

record state =
  db :: database
  fs :: blobs

subsection \<open>Exceptions and injected failures\<close>

text \<open>
  \<^verbatim>\<open>str(e)\<close> of an exception is the text it carries. The store and the file system
  fail for reasons outside the handler, so a handler takes the failure of its run as a
  parameter: the call that raises, and what it raises. A call that is not reached in a
  run does not raise in it.
\<close>

datatype exn = IntegrityError string | OtherException string

fun str :: "exn \<Rightarrow> string" where
  "str (IntegrityError m) = m"
| "str (OtherException m) = m"

datatype fault =
    NoFault
  | FlushMateriaFails exn
  | FlushCursoFails exn
  | SaveFails string
  | OsRenameFails string
  | CommitFails exn

subsection \<open>Responses\<close>

text \<open>
  One constructor for each return statement of the handlers, carrying what the message
  interpolates; \<open>status\<close> is the HTTP code returned with it. \<open>Unhandled\<close> is an
  exception that leaves the handler, which Flask answers with 500.
\<close>

record list_entry =
  e_nombre :: string
  e_fecha_subida :: string
  e_docente :: string
  e_materia :: string
  e_periodo :: string
  e_etiqueta_curso :: string

datatype response =
    UploadNoFile
  | UploadMissingData
  | UploadCreated string string
  | UploadUpdated string string
  | UploadIntegrityError
  | UploadDbError string
  | FileList "list_entry list"
  | FileInline string
  | FileAttachment string
  | NotFound
  | DeleteOk
  | DeletePartial
  | RenameNoJson
  | RenameMissingNames
  | RenameOldMissing
  | RenameNewExists
  | RenameNoRecord
  | RenameRecordExists
  | RenameFsError string
  | RenameOk string
  | RenameDbError string
  | Unhandled exn

fun status :: "response \<Rightarrow> nat" where
  "status UploadNoFile = 400"
| "status UploadMissingData = 400"
| "status (UploadCreated m p) = 200"
| "status (UploadUpdated m p) = 200"
| "status UploadIntegrityError = 500"
| "status (UploadDbError e) = 500"
| "status (FileList es) = 200"
| "status (FileInline b) = 200"
| "status (FileAttachment b) = 200"
| "status NotFound = 404"
| "status DeleteOk = 200"
| "status DeletePartial = 202"
| "status RenameNoJson = 400"
| "status RenameMissingNames = 400"
| "status RenameOldMissing = 404"
| "status RenameNewExists = 400"
| "status RenameNoRecord = 404"
| "status RenameRecordExists = 400"
| "status (RenameFsError e) = 500"
| "status (RenameOk n) = 200"
| "status (RenameDbError e) = 500"
| "status (Unhandled e) = 500"

section \<open>Strings\<close>

text \<open>
  Python's \<^verbatim>\<open>str.strip()\<close>, \<^verbatim>\<open>str.lower()\<close> and \<^verbatim>\<open>str.endswith\<close> on ASCII text.
  The whitespace of \<^verbatim>\<open>strip\<close> is tab, line feed, vertical tab, form feed, carriage
  return, the separators 0x1C to 0x1F and the space.
\<close>

definition is_space :: "char \<Rightarrow> bool" where
  "is_space c = (c \<in> set [CHR 0x09, CHR 0x0A, CHR 0x0B, CHR 0x0C, CHR 0x0D,
                           CHR 0x1C, CHR 0x1D, CHR 0x1E, CHR 0x1F, CHR '' ''])"

definition strip :: "string \<Rightarrow> string" where
  "strip s = rev (dropWhile is_space (rev (dropWhile is_space s)))"

definition lower_char :: "char \<Rightarrow> char" where
  "lower_char c =
     (case map_of (zip ''ABCDEFGHIJKLMNOPQRSTUVWXYZ'' ''abcdefghijklmnopqrstuvwxyz'') c of
        None \<Rightarrow> c | Some l \<Rightarrow> l)"

definition lower :: "string \<Rightarrow> string" where
  "lower s = map lower_char s"

definition endswith :: "string \<Rightarrow> string \<Rightarrow> bool" where
  "endswith s t = (length t \<le> length s \<and> drop (length s - length t) s = t)"

text \<open>Python's truth value of an optional string: \<^verbatim>\<open>None\<close> and \<^verbatim>\<open>''\<close> are false.\<close>

definition falsy :: "string option \<Rightarrow> bool" where
  "falsy v = (case v of None \<Rightarrow> True | Some s \<Rightarrow> s = [])"

section \<open>The two stores\<close>

subsection \<open>File system calls\<close>

definition path_exists :: "blobs \<Rightarrow> string \<Rightarrow> bool" where
  "path_exists f name = (name = [] \<or> f name \<noteq> None)"

definition os_remove :: "blobs \<Rightarrow> string \<Rightarrow> exn + blobs" where
  "os_remove f name =
     (if name = [] then Inl (OtherException ''IsADirectoryError'')
      else case f name of
             None \<Rightarrow> Inl (OtherException ''FileNotFoundError'')
           | Some b \<Rightarrow> Inr (f(name := None)))"

definition os_rename :: "blobs \<Rightarrow> string \<Rightarrow> string \<Rightarrow> exn + blobs" where
  "os_rename f src dst =
     (if src = [] \<or> dst = [] then Inl (OtherException ''OSError'')
      else case f src of
             None \<Rightarrow> Inl (OtherException ''FileNotFoundError'')
           | Some b \<Rightarrow> Inr ((f(src := None))(dst \<mapsto> b)))"

text \<open>\<^verbatim>\<open>file.save(filepath)\<close> creates the file or overwrites it.\<close>

definition file_save :: "fault \<Rightarrow> blobs \<Rightarrow> string \<Rightarrow> string \<Rightarrow> exn + blobs" where
  "file_save ft f name payload =
     (if name = [] then Inl (OtherException ''IsADirectoryError'')
      else case ft of
             SaveFails m \<Rightarrow> Inl (OtherException m)
           | _ \<Rightarrow> Inr (f(name \<mapsto> payload)))"

subsection \<open>Rows\<close>

text \<open>A new row gets the key after the largest one of its table.\<close>

definition next_id :: "nat list \<Rightarrow> nat" where
  "next_id ids = Suc (fold max ids 0)"

fun update_first :: "('a \<Rightarrow> bool) \<Rightarrow> ('a \<Rightarrow> 'a) \<Rightarrow> 'a list \<Rightarrow> 'a list" where
  "update_first P g [] = []"
| "update_first P g (x # xs) = (if P x then g x # xs else x # update_first P g xs)"

fun remove_first :: "('a \<Rightarrow> bool) \<Rightarrow> 'a list \<Rightarrow> 'a list" where
  "remove_first P [] = []"
| "remove_first P (x # xs) = (if P x then xs else x # remove_first P xs)"

text \<open>\<^verbatim>\<open>Archivo.query.filter_by(nombre=name).first()\<close>\<close>

definition archivo_by_nombre :: "string \<Rightarrow> database \<Rightarrow> archivo option" where
  "archivo_by_nombre name d = find (\<lambda>a. a_nombre a = name) (archivos d)"

definition commit :: "fault \<Rightarrow> exn option" where
  "commit ft = (case ft of CommitFails e \<Rightarrow> Some e | _ \<Rightarrow> None)"

section \<open>Upload\<close>

text \<open>
  The form of \<^verbatim>\<open>POST /files/upload\<close>: \<^verbatim>\<open>request.files.get('file')\<close> as the pair of the
  originating filename and the payload, and the two text fields. A missing field is
  \<open>None\<close>. \<^verbatim>\<open>secure_filename\<close> is Werkzeug's; the handlers take it as the parameter
  \<open>sf\<close>. \<open>now\<close> is \<^verbatim>\<open>datetime.utcnow()\<close> and \<open>uid\<close> is \<^verbatim>\<open>current_user.id\<close>.
\<close>

record upload_req =
  u_file :: "(string \<times> string) option"
  u_materia :: "string option"
  u_periodo :: "string option"

text \<open>Step 3.1: look the \<^verbatim>\<open>Materia\<close> up by name, or add it and flush.\<close>

definition get_materia :: "fault \<Rightarrow> string \<Rightarrow> database \<Rightarrow> exn + (materia \<times> database)" where
  "get_materia ft nombre_materia d =
     (case find (\<lambda>m. m_nombre m = nombre_materia) (materias d) of
        Some m \<Rightarrow> Inr (m, d)
      | None \<Rightarrow>
          (case ft of
             FlushMateriaFails e \<Rightarrow> Inl e
           | _ \<Rightarrow>
               let m = \<lparr>m_id = next_id (map m_id (materias d)), m_nombre = nombre_materia\<rparr>
               in Inr (m, d\<lparr>materias := materias d @ [m]\<rparr>)))"

text \<open>Step 3.2: look the \<^verbatim>\<open>Curso\<close> up by teacher, subject and period, or add it and flush.\<close>

definition get_curso :: "fault \<Rightarrow> nat \<Rightarrow> nat \<Rightarrow> string \<Rightarrow> database \<Rightarrow> exn + (curso \<times> database)" where
  "get_curso ft uid mid periodo d =
     (case find (\<lambda>c. c_docente_id c = uid \<and> c_materia_id c = mid \<and> c_periodo c = periodo)
                (cursos d) of
        Some c \<Rightarrow> Inr (c, d)
      | None \<Rightarrow>
          (case ft of
             FlushCursoFails e \<Rightarrow> Inl e
           | _ \<Rightarrow>
               let c = \<lparr>c_id = next_id (map c_id (cursos d)), c_docente_id = uid,
                        c_materia_id = mid, c_periodo = periodo\<rparr>
               in Inr (c, d\<lparr>cursos := cursos d @ [c]\<rparr>)))"

text \<open>
  Step 5: update the \<^verbatim>\<open>Archivo\<close> of that name, or add one. The flag says whether the
  record existed.
\<close>

definition put_archivo :: "nat \<Rightarrow> nat \<Rightarrow> nat \<Rightarrow> string \<Rightarrow> database \<Rightarrow> bool \<times> database" where
  "put_archivo now uid cid filename d =
     (case archivo_by_nombre filename d of
        Some archivo_existente \<Rightarrow>
          (True, d\<lparr>archivos := update_first (\<lambda>a. a_nombre a = filename)
                     (\<lambda>a. a\<lparr>a_fecha_subida := now, a_docente_id := uid, a_curso_id := cid\<rparr>)
                     (archivos d)\<rparr>)
      | None \<Rightarrow>
          (False, d\<lparr>archivos := archivos d @
                     [\<lparr>a_id = next_id (map a_id (archivos d)), a_nombre = filename,
                       a_fecha_subida = now, a_docente_id = uid, a_curso_id = cid\<rparr>]\<rparr>))"

text \<open>
  The body of the \<^verbatim>\<open>try\<close> block. An exception leaves it with the directory as it is
  at that moment; the session's pending changes are not in the committed store.
\<close>

definition upload_try ::
  "fault \<Rightarrow> nat \<Rightarrow> nat \<Rightarrow> string \<Rightarrow> string \<Rightarrow> string \<Rightarrow> string \<Rightarrow> state
     \<Rightarrow> (exn \<times> blobs) + (response \<times> state)" where
  "upload_try ft now uid nombre_materia periodo filename payload s =
     (case get_materia ft nombre_materia (db s) of
        Inl e \<Rightarrow> Inl (e, fs s)
      | Inr (materia, d1) \<Rightarrow>
          (case get_curso ft uid (m_id materia) periodo d1 of
             Inl e \<Rightarrow> Inl (e, fs s)
           | Inr (curso, d2) \<Rightarrow>
               (case file_save ft (fs s) filename payload of
                  Inl e \<Rightarrow> Inl (e, fs s)
                | Inr f1 \<Rightarrow>
                    (case put_archivo now uid (c_id curso) filename d2 of
                       (existed, d3) \<Rightarrow>
                         (case commit ft of
                            Some e \<Rightarrow> Inl (e, f1)
                          | None \<Rightarrow>
                              Inr (if existed then UploadUpdated (m_nombre materia) periodo
                                   else UploadCreated (m_nombre materia) periodo,
                                   \<lparr>db = d3, fs = f1\<rparr>))))))"

text \<open>
  The two \<^verbatim>\<open>except\<close> clauses: roll back, remove the file if its path exists, answer 500.
  \<open>s\<close> is the state before the request, \<open>f\<close> the directory when the exception came.
\<close>

definition upload_except :: "exn \<Rightarrow> blobs \<Rightarrow> string \<Rightarrow> state \<Rightarrow> response \<times> state" where
  "upload_except e f filename s =
     (let r = (case e of IntegrityError m \<Rightarrow> UploadIntegrityError
                       | OtherException m \<Rightarrow> UploadDbError m)
      in if path_exists f filename then
           (case os_remove f filename of
              Inl e' \<Rightarrow> (Unhandled e', s\<lparr>fs := f\<rparr>)
            | Inr f' \<Rightarrow> (r, s\<lparr>fs := f'\<rparr>))
         else (r, s\<lparr>fs := f\<rparr>))"

definition upload ::
  "(string \<Rightarrow> string) \<Rightarrow> nat \<Rightarrow> nat \<Rightarrow> fault \<Rightarrow> upload_req \<Rightarrow> state \<Rightarrow> response \<times> state" where
  "upload sf now uid ft req s =
     (case u_file req of
        None \<Rightarrow> (UploadNoFile, s)
      | Some (fname, payload) \<Rightarrow>
          if fname = [] then (UploadNoFile, s)
          else
            (case u_materia req of
               None \<Rightarrow> (UploadMissingData, s)
             | Some nombre_materia_raw \<Rightarrow>
                 (case u_periodo req of
                    None \<Rightarrow> (UploadMissingData, s)
                  | Some periodo_raw \<Rightarrow>
                      if nombre_materia_raw = [] \<or> periodo_raw = [] then (UploadMissingData, s)
                      else
                        let nombre_materia = strip nombre_materia_raw;
                            periodo = strip periodo_raw;
                            filename = sf fname
                        in (case upload_try ft now uid nombre_materia periodo filename payload s of
                              Inr out \<Rightarrow> out
                            | Inl (e, f) \<Rightarrow> upload_except e f filename s))))"

section \<open>List and search\<close>

text \<open>
  The row of the joined query. SQL's \<^verbatim>\<open>LIKE\<close>: \<^verbatim>\<open>%\<close> matches any run of characters and
  \<^verbatim>\<open>_\<close> any one character; \<^verbatim>\<open>ilike\<close> compares the lower-cased column with the
  lower-cased pattern. \<^verbatim>\<open>order_by(Archivo.fecha_subida.desc())\<close> is a sort by the timestamp,
  largest first. \<open>fmt\<close> is \<^verbatim>\<open>strftime("%d/%m/%Y %H:%M")\<close>.
\<close>

record row =
  r_nombre :: string
  r_fecha_subida :: nat
  r_docente_nombre :: string
  r_materia_nombre :: string
  r_periodo :: string

fun like :: "string \<Rightarrow> string \<Rightarrow> bool" where
  "like [] [] = True"
| "like [] (c # cs) = False"
| "like (p # ps) [] = (p = CHR ''%'' \<and> like ps [])"
| "like (p # ps) (c # cs) =
     (if p = CHR ''%'' then like ps (c # cs) \<or> like (p # ps) cs
      else (p = CHR ''_'' \<or> p = c) \<and> like ps cs)"

definition ilike :: "string \<Rightarrow> string \<Rightarrow> bool" where
  "ilike col pat = like (lower pat) (lower col)"

definition joined :: "database \<Rightarrow> row list" where
  "joined d =
     [\<lparr>r_nombre = a_nombre a, r_fecha_subida = a_fecha_subida a, r_docente_nombre = d_nombre dc,
       r_materia_nombre = m_nombre m, r_periodo = c_periodo c\<rparr>.
        a \<leftarrow> archivos d,
        dc \<leftarrow> docentes d, a_docente_id a = d_id dc,
        c \<leftarrow> cursos d, a_curso_id a = c_id c,
        m \<leftarrow> materias d, c_materia_id c = m_id m]"

definition order_desc :: "row list \<Rightarrow> row list" where
  "order_desc rows = rev (sort_key r_fecha_subida rows)"

definition matches :: "string \<Rightarrow> row \<Rightarrow> bool" where
  "matches search_query r =
     (let pat = CHR ''%'' # search_query @ ''%''
      in ilike (r_nombre r) pat \<or> ilike (r_materia_nombre r) pat \<or> ilike (r_periodo r) pat)"

definition list_rows :: "string \<Rightarrow> state \<Rightarrow> row list" where
  "list_rows search s =
     (let search_query = lower search;
          rows = (if search_query \<noteq> [] then filter (matches search_query) (joined (db s))
                  else joined (db s))
      in filter (\<lambda>r. path_exists (fs s) (r_nombre r)) (order_desc rows))"

definition entry :: "(nat \<Rightarrow> string) \<Rightarrow> row \<Rightarrow> list_entry" where
  "entry fmt r =
     \<lparr>e_nombre = r_nombre r, e_fecha_subida = fmt (r_fecha_subida r),
      e_docente = r_docente_nombre r, e_materia = r_materia_nombre r, e_periodo = r_periodo r,
      e_etiqueta_curso = r_materia_nombre r @ '' ('' @ r_periodo r @ '')''\<rparr>"

definition list_files :: "(nat \<Rightarrow> string) \<Rightarrow> nat \<Rightarrow> string \<Rightarrow> state \<Rightarrow> response \<times> state" where
  "list_files fmt uid search s = (FileList (map (entry fmt) (list_rows search s)), s)"

section \<open>View and download\<close>

text \<open>\<^verbatim>\<open>send_from_directory\<close> answers 404 unless the name is a regular file of the directory.\<close>

definition view_file :: "nat \<Rightarrow> string \<Rightarrow> state \<Rightarrow> response \<times> state" where
  "view_file uid filename s =
     (if filename = [] then (NotFound, s)
      else case fs s filename of None \<Rightarrow> (NotFound, s) | Some b \<Rightarrow> (FileInline b, s))"

definition download_file :: "nat \<Rightarrow> string \<Rightarrow> state \<Rightarrow> response \<times> state" where
  "download_file uid filename s =
     (if filename = [] then (NotFound, s)
      else case fs s filename of None \<Rightarrow> (NotFound, s) | Some b \<Rightarrow> (FileAttachment b, s))"

section \<open>Delete\<close>

text \<open>
  The handler has no \<^verbatim>\<open>try\<close>: a commit that raises leaves it before the directory is
  looked at, and the session's pending delete is dropped with the request.
\<close>

definition delete_file :: "nat \<Rightarrow> fault \<Rightarrow> string \<Rightarrow> state \<Rightarrow> response \<times> state" where
  "delete_file uid ft filename s =
     (let step1 =
            (case archivo_by_nombre filename (db s) of
               None \<Rightarrow> Inr (db s)
             | Some archivo_db \<Rightarrow>
                 (case commit ft of
                    Some e \<Rightarrow> Inl e
                  | None \<Rightarrow>
                      Inr ((db s)\<lparr>archivos :=
                             remove_first (\<lambda>a. a_nombre a = filename) (archivos (db s))\<rparr>)))
      in case step1 of
           Inl e \<Rightarrow> (Unhandled e, s)
         | Inr d \<Rightarrow>
             if path_exists (fs s) filename then
               (case os_remove (fs s) filename of
                  Inl e \<Rightarrow> (Unhandled e, \<lparr>db = d, fs = fs s\<rparr>)
                | Inr f \<Rightarrow> (DeleteOk, \<lparr>db = d, fs = f\<rparr>))
             else (DeletePartial, \<lparr>db = d, fs = fs s\<rparr>))"

section \<open>Rename\<close>

text \<open>
  The JSON body of \<^verbatim>\<open>PUT /files/rename\<close> is the list of its members, \<open>None\<close> when
  \<^verbatim>\<open>get_json\<close> gives \<^verbatim>\<open>None\<close>; \<^verbatim>\<open>data.get(k)\<close> is \<open>map_of\<close>.
\<close>

definition final_name :: "(string \<Rightarrow> string) \<Rightarrow> string \<Rightarrow> string" where
  "final_name sf new_name_raw =
     (let clean_new_name = sf new_name_raw
      in if \<not> endswith (lower clean_new_name) ''.pdf'' then clean_new_name @ ''.pdf''
         else clean_new_name)"

definition rename_file ::
  "(string \<Rightarrow> string) \<Rightarrow> nat \<Rightarrow> fault \<Rightarrow> (string \<times> string) list option \<Rightarrow> state
     \<Rightarrow> response \<times> state" where
  "rename_file sf uid ft data s =
     (case data of
        None \<Rightarrow> (RenameNoJson, s)
      | Some d \<Rightarrow>
          if d = [] then (RenameNoJson, s)
          else if falsy (map_of d ''old_name'') \<or> falsy (map_of d ''new_name'')
          then (RenameMissingNames, s)
          else
            (case (map_of d ''old_name'', map_of d ''new_name'') of
               (Some old_name, Some new_name_raw) \<Rightarrow>
                 let final_new_name = final_name sf new_name_raw in
                 if \<not> path_exists (fs s) old_name then (RenameOldMissing, s)
                 else if path_exists (fs s) final_new_name then (RenameNewExists, s)
                 else
                   (case archivo_by_nombre old_name (db s) of
                      None \<Rightarrow> (RenameNoRecord, s)
                    | Some archivo_db \<Rightarrow>
                        if archivo_by_nombre final_new_name (db s) \<noteq> None
                        then (RenameRecordExists, s)
                        else
                          (case (case ft of
                                   OsRenameFails m \<Rightarrow> Inl (OtherException m)
                                 | _ \<Rightarrow> os_rename (fs s) old_name final_new_name) of
                             Inl e \<Rightarrow> (RenameFsError (str e), s)
                           | Inr f1 \<Rightarrow>
                               (case commit ft of
                                  None \<Rightarrow>
                                    (RenameOk final_new_name,
                                     \<lparr>db = (db s)\<lparr>archivos :=
                                             update_first (\<lambda>a. a_nombre a = old_name)
                                               (\<lambda>a. a\<lparr>a_nombre := final_new_name\<rparr>)
                                               (archivos (db s))\<rparr>,
                                      fs = f1\<rparr>)
                                | Some e \<Rightarrow>
                                    (case os_rename f1 final_new_name old_name of
                                       Inl e' \<Rightarrow> (Unhandled e', \<lparr>db = db s, fs = f1\<rparr>)
                                     | Inr f2 \<Rightarrow> (RenameDbError (str e), \<lparr>db = db s, fs = f2\<rparr>)))))
             | _ \<Rightarrow> (RenameMissingNames, s)))"

section \<open>Notions used in the properties\<close>

text \<open>The store with the owner of every file record changed by \<open>g\<close>.\<close>

definition reown :: "(nat \<Rightarrow> nat) \<Rightarrow> state \<Rightarrow> state" where
  "reown g s =
     s\<lparr>db := (db s)\<lparr>archivos := map (\<lambda>a. a\<lparr>a_docente_id := g (a_docente_id a)\<rparr>) (archivos (db s))\<rparr>\<rparr>"

text \<open>The key of a course, the invariant that no two courses share it, and counts of rows.\<close>

definition curso_key :: "curso \<Rightarrow> nat \<times> nat \<times> string" where
  "curso_key c = (c_docente_id c, c_materia_id c, c_periodo c)"

definition cursos_unique :: "database \<Rightarrow> bool" where
  "cursos_unique d = distinct (map curso_key (cursos d))"

definition count_cursos :: "nat \<Rightarrow> nat \<Rightarrow> string \<Rightarrow> database \<Rightarrow> nat" where
  "count_cursos uid mid periodo d =
     length (filter (\<lambda>c. curso_key c = (uid, mid, periodo)) (cursos d))"

definition count_archivos :: "string \<Rightarrow> database \<Rightarrow> nat" where
  "count_archivos name d = length (filter (\<lambda>a. a_nombre a = name) (archivos d))"





section \<open>Example stores\<close>

text \<open>Concrete stores and requests at which the theorems below are evaluated.\<close>

definition s_empty :: state where
  "s_empty = \<lparr>db = \<lparr>materias = [], cursos = [], archivos = [], docentes = []\<rparr>, fs = Map.empty\<rparr>"

definition db_one :: database where
  "db_one =
     \<lparr>materias = [\<lparr>m_id = 1, m_nombre = ''Algebra''\<rparr>],
      cursos = [\<lparr>c_id = 1, c_docente_id = 1, c_materia_id = 1, c_periodo = ''2024-1''\<rparr>],
      archivos = [\<lparr>a_id = 1, a_nombre = ''A.pdf'', a_fecha_subida = 10, a_docente_id = 1,
                   a_curso_id = 1\<rparr>],
      docentes = [\<lparr>d_id = 1, d_nombre = ''Ana''\<rparr>, \<lparr>d_id = 2, d_nombre = ''Luis''\<rparr>]\<rparr>"

definition s_one :: state where
  "s_one = \<lparr>db = db_one, fs = [''A.pdf'' \<mapsto> ''old bytes'']\<rparr>"

definition s_record_only :: state where
  "s_record_only = \<lparr>db = db_one, fs = Map.empty\<rparr>"


definition rename_A_B :: "(string \<times> string) list option" where
  "rename_A_B = Some [(''old_name'', ''A.pdf''), (''new_name'', ''B'')]"

definition req_A :: upload_req where
  "req_A = \<lparr>u_file = Some (''A.pdf'', ''new bytes''), u_materia = Some ''Algebra'',
            u_periodo = Some '' 2024-1 ''\<rparr>"

definition req_blank :: upload_req where
  "req_blank = \<lparr>u_file = Some (''A.pdf'', ''new bytes''), u_materia = Some ''  '',
                u_periodo = Some ''2024-1''\<rparr>"

definition req_A2 :: upload_req where
  "req_A2 = \<lparr>u_file = Some (''A.pdf'', ''newer bytes''), u_materia = Some ''Algebra '',
             u_periodo = Some ''2024-1''\<rparr>"

definition s_A :: state where
  "s_A = \<lparr>db = \<lparr>materias = [\<lparr>m_id = 1, m_nombre = ''Algebra''\<rparr>],
                cursos = [\<lparr>c_id = 1, c_docente_id = 1, c_materia_id = 1, c_periodo = ''2024-1''\<rparr>],
                archivos = [\<lparr>a_id = 1, a_nombre = ''A.pdf'', a_fecha_subida = 20, a_docente_id = 1,
                             a_curso_id = 1\<rparr>],
                docentes = []\<rparr>,
          fs = [''A.pdf'' \<mapsto> ''new bytes'']\<rparr>"

definition s_A2 :: state where
  "s_A2 = \<lparr>db = \<lparr>materias = [\<lparr>m_id = 1, m_nombre = ''Algebra''\<rparr>],
                cursos = [\<lparr>c_id = 1, c_docente_id = 1, c_materia_id = 1, c_periodo = ''2024-1''\<rparr>],
                archivos = [\<lparr>a_id = 1, a_nombre = ''A.pdf'', a_fecha_subida = 30, a_docente_id = 1,
                             a_curso_id = 1\<rparr>],
                docentes = []\<rparr>,
          fs = [''A.pdf'' \<mapsto> ''newer bytes'']\<rparr>"



section \<open>Facts about the row operations\<close>

lemma find_Some_set: "find P xs = Some a \<Longrightarrow> a \<in> set xs \<and> P a"
  by (induction xs) (auto split: if_splits)



section \<open>Delete\<close>






section \<open>Rename, and who may do what\<close>

lemma final_name_nonempty: "final_name sf x \<noteq> []"
  by (auto simp: final_name_def Let_def endswith_def lower_def)

lemma find_map_same:
  "(\<And>x. P (h x) = P x) \<Longrightarrow> find P (map h xs) = map_option h (find P xs)"
  by (induction xs) auto

lemma remove_first_map:
  "(\<And>x. P (h x) = P x) \<Longrightarrow> remove_first P (map h xs) = map h (remove_first P xs)"
  by (induction xs) auto

lemma update_first_map:
  "(\<And>x. P (h x) = P x) \<Longrightarrow> (\<And>x. u (h x) = h (u x)) \<Longrightarrow>
   update_first P u (map h xs) = map h (update_first P u xs)"
  by (induction xs) auto

lemma archivo_by_nombre_reown:
  "archivo_by_nombre n (db (reown g s)) =
     map_option (\<lambda>a. a\<lparr>a_docente_id := g (a_docente_id a)\<rparr>) (archivo_by_nombre n (db s))"
  by (simp add: archivo_by_nombre_def reown_def find_map_same)

lemma fs_reown: "fs (reown g s) = fs s"
  by (simp add: reown_def)

lemma delete_file_reown:
  "delete_file u ft n (reown g s) = apsnd (reown g) (delete_file u ft n s)"
  by (auto simp: delete_file_def archivo_by_nombre_reown fs_reown Let_def
      split: option.splits sum.splits)
    (auto simp: reown_def remove_first_map)

lemma rename_file_reown:
  "rename_file sf u ft data (reown g s) = apsnd (reown g) (rename_file sf u ft data s)"
  by (auto simp: rename_file_def archivo_by_nombre_reown fs_reown Let_def
      split: option.splits sum.splits fault.splits)
    (auto simp: reown_def update_first_map)

text \<open>
  C10: delete, rename, view and download give the same answer and the same stores
  whichever teacher sends the request, and whoever owns the file records: with the
  owners changed by any \<open>g\<close>, the answer is the same and the stores afterwards are the
  same up to \<open>g\<close>. So a teacher can view, rename and delete a file of another teacher.
\<close>

theorem handlers_ignore_identity:
  "delete_file u1 ft filename s = delete_file u2 ft filename s
   \<and> rename_file sf u1 ft data s = rename_file sf u2 ft data s
   \<and> view_file u1 filename s = view_file u2 filename s
   \<and> download_file u1 filename s = download_file u2 filename s
   \<and> delete_file u1 ft filename (reown g s) = apsnd (reown g) (delete_file u2 ft filename s)
   \<and> rename_file sf u1 ft data (reown g s) = apsnd (reown g) (rename_file sf u2 ft data s)
   \<and> view_file u1 filename (reown g s) = apsnd (reown g) (view_file u2 filename s)
   \<and> download_file u1 filename (reown g s) = apsnd (reown g) (download_file u2 filename s)"
  by (simp add: delete_file_reown rename_file_reown)
    (simp add: delete_file_def rename_file_def view_file_def download_file_def fs_reown
      split: option.splits)

theorem handlers_ignore_identity_witness:
  "delete_file 2 NoFault ''A.pdf'' s_one = delete_file 1 NoFault ''A.pdf'' s_one
   \<and> fst (delete_file 2 NoFault ''A.pdf'' s_one) = DeleteOk
   \<and> rename_file id 2 NoFault rename_A_B s_one = rename_file id 1 NoFault rename_A_B s_one
   \<and> fst (rename_file id 2 NoFault rename_A_B s_one) = RenameOk ''B.pdf''
   \<and> view_file 2 ''A.pdf'' s_one = (FileInline ''old bytes'', s_one)
   \<and> download_file 2 ''A.pdf'' s_one = (FileAttachment ''old bytes'', s_one)
   \<and> fst (delete_file 2 NoFault ''A.pdf'' (reown (\<lambda>u. 2) s_one)) = DeleteOk"
  using handlers_ignore_identity [of 2 NoFault "''A.pdf''" s_one 1 id rename_A_B "\<lambda>u. 2"]
  by (simp add: delete_file_def rename_file_def view_file_def download_file_def s_one_def
      db_one_def rename_A_B_def archivo_by_nombre_def path_exists_def os_remove_def os_rename_def
      commit_def falsy_def final_name_def endswith_def lower_def lower_char_def reown_def Let_def)



text \<open>
  C2: when the four preconditions hold, the blob is moved to the new name; when the
  commit of the record's new name then raises, the blob is moved back before the error
  is answered (status 500). Afterwards the blob is under the old name, no blob is under
  the new name, and the record has the old name: the state is the one before the request.
\<close>

theorem rename_commit_failure_reverts:
  assumes "data = Some d"
    and "map_of d ''old_name'' = Some old_name" and "old_name \<noteq> []"
    and "map_of d ''new_name'' = Some new_name_raw" and "new_name_raw \<noteq> []"
    and "fs s old_name = Some b" and "fs s (final_name sf new_name_raw) = None"
    and "archivo_by_nombre old_name (db s) = Some a"
    and "archivo_by_nombre (final_name sf new_name_raw) (db s) = None"
    and "ft = CommitFails e"
  shows "os_rename (fs s) old_name (final_name sf new_name_raw)
           = Inr ((fs s)(old_name := None, final_name sf new_name_raw \<mapsto> b))
         \<and> rename_file sf uid ft data s = (RenameDbError (str e), s)
         \<and> fs (snd (rename_file sf uid ft data s)) old_name = Some b
         \<and> fs (snd (rename_file sf uid ft data s)) (final_name sf new_name_raw) = None
         \<and> archivo_by_nombre old_name (db (snd (rename_file sf uid ft data s))) = Some a
         \<and> status (RenameDbError (str e)) = 500"
proof -
  let ?new = "final_name sf new_name_raw"
  from assms(2) have d: "d \<noteq> []" by auto
  from assms(6,7) have ne: "old_name \<noteq> ?new" by auto
  have undo: "((fs s)(old_name := None, ?new \<mapsto> b))(?new := None, old_name \<mapsto> b) = fs s"
    using assms(6,7) ne by (auto simp: fun_eq_iff)
  have r1: "os_rename (fs s) old_name ?new = Inr ((fs s)(old_name := None, ?new \<mapsto> b))"
    using assms(3,6) by (simp add: os_rename_def final_name_nonempty)
  have r2: "os_rename ((fs s)(old_name := None, ?new \<mapsto> b)) ?new old_name = Inr (fs s)"
    using assms(3) undo by (simp add: os_rename_def final_name_nonempty)
  have "rename_file sf uid ft data s = (RenameDbError (str e), s)"
    using assms d r1 r2
    by (simp add: rename_file_def falsy_def path_exists_def final_name_nonempty Let_def commit_def)
  with r1 assms show ?thesis by simp
qed

theorem rename_commit_failure_reverts_witness:
  "rename_file id 2 (CommitFails (OtherException ''disk full'')) rename_A_B s_one
     = (RenameDbError ''disk full'', s_one)
   \<and> fs (snd (rename_file id 2 (CommitFails (OtherException ''disk full'')) rename_A_B s_one)) ''A.pdf''
       = Some ''old bytes''
   \<and> fs (snd (rename_file id 2 (CommitFails (OtherException ''disk full'')) rename_A_B s_one)) ''B.pdf''
       = None"
  using rename_commit_failure_reverts [of rename_A_B _ "''A.pdf''" "''B''" s_one "''old bytes''" id _
      "CommitFails (OtherException ''disk full'')" "OtherException ''disk full''" 2]
  by (simp add: rename_A_B_def s_one_def db_one_def final_name_def endswith_def
      lower_def lower_char_def archivo_by_nombre_def)

section \<open>Upload: failures\<close>

lemma strip_examples: "strip '' 2024-1 '' = ''2024-1''" "strip ''  '' = []" "strip ''Algebra'' = ''Algebra''"
  "strip ''2024-1'' = ''2024-1''"
  by (simp_all add: strip_def is_space_def)

lemma get_materia_commit_fault:
  "\<exists>m d1. get_materia (CommitFails e) n d = Inr (m, d1)"
  by (simp add: get_materia_def Let_def split: option.splits)

lemma get_curso_commit_fault:
  "\<exists>c d1. get_curso (CommitFails e) uid mid p d = Inr (c, d1)"
  by (simp add: get_curso_def Let_def split: option.splits)

text \<open>
  C1, as the specification states it: when the commit fails after the blob was written,
  the state before the upload is restored, also when a blob of that name existed before.
  It is not: the old blob was overwritten by \<^verbatim>\<open>file.save\<close> and the handler then
  removes the file, so the record of \<open>A.pdf\<close> is left without its blob.
\<close>

theorem upload_commit_failure_counterexample:
  "fs s_one ''A.pdf'' = Some ''old bytes''
   \<and> upload id 20 1 (CommitFails (OtherException ''locked'')) req_A s_one
       = (UploadDbError ''locked'', \<lparr>db = db_one, fs = Map.empty\<rparr>)
   \<and> snd (upload id 20 1 (CommitFails (OtherException ''locked'')) req_A s_one) \<noteq> s_one
   \<and> archivo_by_nombre ''A.pdf'' (db (snd (upload id 20 1 (CommitFails (OtherException ''locked'')) req_A s_one))) \<noteq> None
   \<and> fs (snd (upload id 20 1 (CommitFails (OtherException ''locked'')) req_A s_one)) ''A.pdf'' = None"
proof -
  have u: "upload id 20 1 (CommitFails (OtherException ''locked'')) req_A s_one
       = (UploadDbError ''locked'', \<lparr>db = db_one, fs = Map.empty\<rparr>)"
    by (simp add: upload_def req_A_def strip_examples upload_try_def get_materia_def get_curso_def
      s_one_def db_one_def file_save_def put_archivo_def archivo_by_nombre_def commit_def
      upload_except_def path_exists_def os_remove_def)
  have "fs s_one ''A.pdf'' \<noteq> fs \<lparr>db = db_one, fs = Map.empty\<rparr> ''A.pdf''"
    by (simp add: s_one_def)
  then have "\<lparr>db = db_one, fs = Map.empty\<rparr> \<noteq> s_one" by metis
  with u show ?thesis
    by (simp add: s_one_def db_one_def archivo_by_nombre_def)
qed

text \<open>
  C1, amended: when the commit fails after the blob was written, the answer is a 500
  error, the metadata store is the one before the request, and no blob of the sanitized
  name exists afterwards. If no blob of that name existed before the upload, the state
  afterwards is the state before it.
\<close>

theorem upload_commit_failure_rollback:
  assumes "u_file req = Some (fname, payload)" and "fname \<noteq> []"
    and "u_materia req = Some nombre_materia_raw" and "nombre_materia_raw \<noteq> []"
    and "u_periodo req = Some periodo_raw" and "periodo_raw \<noteq> []"
    and "sf fname \<noteq> []"
    and "ft = CommitFails e"
  shows "upload sf now uid ft req s =
           (case e of IntegrityError m \<Rightarrow> UploadIntegrityError | OtherException m \<Rightarrow> UploadDbError m,
            \<lparr>db = db s, fs = (fs s)(sf fname := None)\<rparr>)
         \<and> status (fst (upload sf now uid ft req s)) = 500
         \<and> (fs s (sf fname) = None \<longrightarrow> snd (upload sf now uid ft req s) = s)"
proof -
  obtain m d1 where m: "get_materia ft (strip nombre_materia_raw) (db s) = Inr (m, d1)"
    using get_materia_commit_fault assms(8) by blast
  obtain c d2 where c: "get_curso ft uid (m_id m) (strip periodo_raw) d1 = Inr (c, d2)"
    using get_curso_commit_fault assms(8) by blast
  have sv: "file_save ft (fs s) (sf fname) payload = Inr ((fs s)(sf fname \<mapsto> payload))"
    using assms(7,8) by (simp add: file_save_def)
  have t: "upload_try ft now uid (strip nombre_materia_raw) (strip periodo_raw) (sf fname) payload s
             = Inl (e, (fs s)(sf fname \<mapsto> payload))"
    using m c sv assms(8) by (simp add: upload_try_def commit_def split: prod.splits)
  have x: "upload_except e ((fs s)(sf fname \<mapsto> payload)) (sf fname) s =
             (case e of IntegrityError m \<Rightarrow> UploadIntegrityError | OtherException m \<Rightarrow> UploadDbError m,
              \<lparr>db = db s, fs = (fs s)(sf fname := None)\<rparr>)"
    using assms(7) by (simp add: upload_except_def path_exists_def os_remove_def Let_def)
  have u: "upload sf now uid ft req s =
           (case e of IntegrityError m \<Rightarrow> UploadIntegrityError | OtherException m \<Rightarrow> UploadDbError m,
            \<lparr>db = db s, fs = (fs s)(sf fname := None)\<rparr>)"
    using assms(1-6) t x by (simp add: upload_def Let_def)
  have "fs s (sf fname) = None \<Longrightarrow> (fs s)(sf fname := None) = fs s"
    by (auto simp: fun_eq_iff)
  with u show ?thesis by (cases e) auto
qed

theorem upload_commit_failure_rollback_witness:
  "upload id 20 1 (CommitFails (IntegrityError ''UNIQUE constraint failed'')) req_A s_empty
     = (UploadIntegrityError, s_empty)
   \<and> upload id 20 1 (CommitFails (OtherException ''locked'')) req_A s_one
     = (UploadDbError ''locked'', s_record_only)"
  using upload_commit_failure_rollback [of req_A "''A.pdf''" "''new bytes''" "''Algebra''" "'' 2024-1 ''" id
      "CommitFails (IntegrityError ''UNIQUE constraint failed'')" "IntegrityError ''UNIQUE constraint failed''" 20 1 s_empty]
    upload_commit_failure_rollback [of req_A "''A.pdf''" "''new bytes''" "''Algebra''" "'' 2024-1 ''" id
      "CommitFails (OtherException ''locked'')" "OtherException ''locked''" 20 1 s_one]
  by (simp add: req_A_def s_empty_def s_one_def s_record_only_def)

text \<open>
  C5: an upload whose subject is empty after trimming is to be rejected before any
  change. The handler tests the raw fields and trims afterwards: a subject of two spaces
  passes the test, and the upload creates a subject with the empty name, a course and a
  file record, and writes the blob.
\<close>

theorem upload_blank_subject_accepted:
  "strip ''  '' = [] \<and>
   upload id 20 1 NoFault req_blank s_empty =
     (UploadCreated [] ''2024-1'',
      \<lparr>db = \<lparr>materias = [\<lparr>m_id = 1, m_nombre = []\<rparr>],
              cursos = [\<lparr>c_id = 1, c_docente_id = 1, c_materia_id = 1, c_periodo = ''2024-1''\<rparr>],
              archivos = [\<lparr>a_id = 1, a_nombre = ''A.pdf'', a_fecha_subida = 20, a_docente_id = 1,
                           a_curso_id = 1\<rparr>],
              docentes = []\<rparr>,
       fs = [''A.pdf'' \<mapsto> ''new bytes'']\<rparr>)"
  by (simp add: upload_def req_blank_def strip_examples upload_try_def get_materia_def get_curso_def
      s_empty_def file_save_def put_archivo_def archivo_by_nombre_def commit_def next_id_def Let_def)

text \<open>The cases the handler does reject: no file, an empty filename, a missing or empty field.\<close>

lemma upload_rejects_missing:
  assumes "u_file req = None \<or> (\<exists>p. u_file req = Some ([], p))
           \<or> falsy (u_materia req) \<or> falsy (u_periodo req)"
  shows "upload sf now uid ft req s = (if u_file req = None \<or> (\<exists>p. u_file req = Some ([], p))
            then UploadNoFile else UploadMissingData, s)"
  using assms by (auto simp: upload_def falsy_def split: option.splits)

section \<open>Upload: successful requests\<close>

lemma find_None_set: "find P xs = None \<longleftrightarrow> (\<forall>x \<in> set xs. \<not> P x)"
  by (induction xs) auto

lemma find_snoc: "find P (xs @ [x]) = (case find P xs of Some y \<Rightarrow> Some y | None \<Rightarrow> if P x then Some x else None)"
  by (induction xs) auto

lemma count_one:
  "distinct (map k xs) \<Longrightarrow> find (\<lambda>c. k c = key) xs = Some c \<Longrightarrow>
   length (filter (\<lambda>c. k c = key) xs) = 1"
proof (induction xs)
  case Nil
  then show ?case by simp
next
  case (Cons x xs)
  show ?case
  proof (cases "k x = key")
    case True
    from Cons.prems(1) have "k x \<notin> k ` set xs" by simp
    with True have "\<forall>y \<in> set xs. k y \<noteq> key" by (metis image_eqI)
    then have "filter (\<lambda>c. k c = key) xs = []" by (simp add: filter_empty_conv)
    with True show ?thesis by simp
  next
    case False
    with Cons show ?thesis by simp
  qed
qed

lemma status_upload_except: "status (fst (upload_except e f n s)) = 500"
  by (simp add: upload_except_def Let_def split: exn.splits sum.splits)

lemma file_save_Inr: "file_save ft f n p = Inr f1 \<Longrightarrow> n \<noteq> [] \<and> f1 = f(n \<mapsto> p)"
  by (auto simp: file_save_def split: if_splits fault.splits)

lemma upload_ok:
  assumes "upload sf now uid ft req s = (r, s')" and "status r = 200"
  shows "\<exists>fname payload mraw praw materia d1 curso d2.
     u_file req = Some (fname, payload) \<and> u_materia req = Some mraw \<and> u_periodo req = Some praw \<and>
     get_materia ft (strip mraw) (db s) = Inr (materia, d1) \<and>
     get_curso ft uid (m_id materia) (strip praw) d1 = Inr (curso, d2) \<and>
     sf fname \<noteq> [] \<and>
     db s' = snd (put_archivo now uid (c_id curso) (sf fname) d2) \<and>
     fs s' = (fs s)(sf fname \<mapsto> payload) \<and>
     r = (if fst (put_archivo now uid (c_id curso) (sf fname) d2)
          then UploadUpdated (m_nombre materia) (strip praw)
          else UploadCreated (m_nombre materia) (strip praw))"
proof -
  from assms obtain fname payload where f: "u_file req = Some (fname, payload)" "fname \<noteq> []"
    by (auto simp: upload_def split: option.splits prod.splits if_splits)
  from assms f obtain mraw where m: "u_materia req = Some mraw"
    by (auto simp: upload_def split: option.splits)
  from assms f m obtain praw where p: "u_periodo req = Some praw"
    by (auto simp: upload_def split: option.splits)
  from assms f m p have ne: "mraw \<noteq> []" "praw \<noteq> []"
    by (auto simp: upload_def split: if_splits)
  let ?t = "upload_try ft now uid (strip mraw) (strip praw) (sf fname) payload s"
  have u: "upload sf now uid ft req s =
             (case ?t of Inr out \<Rightarrow> out | Inl (e, f) \<Rightarrow> upload_except e f (sf fname) s)"
    using f m p ne by (simp add: upload_def Let_def)
  have "\<exists>out. ?t = Inr out"
  proof (cases ?t)
    case (Inl a)
    obtain e f where "a = (e, f)" by (cases a)
    with Inl u assms(1) have "upload_except e f (sf fname) s = (r, s')" by simp
    then have "r = fst (upload_except e f (sf fname) s)" by simp
    with assms(2) status_upload_except [of e f "sf fname" s] show ?thesis by simp
  next
    case (Inr b)
    then show ?thesis by blast
  qed
  with u assms(1) have t: "?t = Inr (r, s')" by auto
  from t obtain materia d1 where gm: "get_materia ft (strip mraw) (db s) = Inr (materia, d1)"
    by (auto simp: upload_try_def split: sum.splits)
  from t gm obtain curso d2 where gc: "get_curso ft uid (m_id materia) (strip praw) d1 = Inr (curso, d2)"
    by (auto simp: upload_try_def split: sum.splits)
  from t gm gc obtain f1 where sv: "file_save ft (fs s) (sf fname) payload = Inr f1"
    by (auto simp: upload_try_def split: sum.splits)
  from t gm gc sv file_save_Inr [OF sv] have
    "sf fname \<noteq> [] \<and>
     db s' = snd (put_archivo now uid (c_id curso) (sf fname) d2) \<and>
     fs s' = (fs s)(sf fname \<mapsto> payload) \<and>
     r = (if fst (put_archivo now uid (c_id curso) (sf fname) d2)
          then UploadUpdated (m_nombre materia) (strip praw)
          else UploadCreated (m_nombre materia) (strip praw))"
    by (auto simp: upload_try_def split: prod.splits option.splits)
  with f m p gm gc show ?thesis by blast
qed

lemma get_materia_Inr:
  assumes "get_materia ft n d = Inr (m, d1)"
  shows "find (\<lambda>m. m_nombre m = n) (materias d1) = Some m \<and> cursos d1 = cursos d
         \<and> archivos d1 = archivos d \<and> docentes d1 = docentes d"
  using assms
  by (auto simp: get_materia_def Let_def find_snoc split: option.splits fault.splits)

lemma get_materia_found:
  "find (\<lambda>m. m_nombre m = n) (materias d) = Some m \<Longrightarrow> get_materia ft n d = Inr (m, d)"
  by (simp add: get_materia_def)

lemma get_curso_Inr:
  assumes "get_curso ft uid mid p d = Inr (c, d2)"
  shows "find (\<lambda>c. curso_key c = (uid, mid, p)) (cursos d2) = Some c \<and> materias d2 = materias d
         \<and> archivos d2 = archivos d \<and> docentes d2 = docentes d
         \<and> (cursos_unique d \<longrightarrow> cursos_unique d2)"
proof (cases "find (\<lambda>c. curso_key c = (uid, mid, p)) (cursos d)")
  case None
  let ?c = "\<lparr>c_id = next_id (map c_id (cursos d)), c_docente_id = uid,
             c_materia_id = mid, c_periodo = p\<rparr>"
  from None assms have c: "c = ?c" and d2: "d2 = d\<lparr>cursos := cursos d @ [?c]\<rparr>"
    by (auto simp: get_curso_def curso_key_def Let_def split: fault.splits)
  from None have "\<forall>x \<in> set (cursos d). curso_key x \<noteq> (uid, mid, p)"
    by (simp add: find_None_set)
  then have fresh: "curso_key ?c \<notin> curso_key ` set (cursos d)"
    by (auto simp: curso_key_def)
  have "find (\<lambda>c. curso_key c = (uid, mid, p)) (cursos d @ [?c]) = Some ?c"
    using None by (simp add: find_snoc curso_key_def)
  with c d2 fresh show ?thesis
    by (simp add: cursos_unique_def)
next
  case (Some x)
  with assms show ?thesis
    by (simp add: get_curso_def curso_key_def)
qed

lemma get_curso_found:
  "find (\<lambda>c. curso_key c = (uid, mid, p)) (cursos d) = Some c \<Longrightarrow>
   get_curso ft uid mid p d = Inr (c, d)"
  by (simp add: get_curso_def curso_key_def)

lemma put_archivo_keeps:
  "materias (snd (put_archivo now uid cid n d)) = materias d \<and>
   cursos (snd (put_archivo now uid cid n d)) = cursos d \<and>
   docentes (snd (put_archivo now uid cid n d)) = docentes d"
  by (simp add: put_archivo_def split: option.splits)

lemma strip_Algebra: "strip ''Algebra '' = ''Algebra''"
  by (simp add: strip_def is_space_def)

lemma upload_A_first:
  "upload id 20 1 NoFault req_A s_empty = (UploadCreated ''Algebra'' ''2024-1'', s_A)"
  by (simp add: upload_def req_A_def strip_examples upload_try_def get_materia_def get_curso_def
      s_empty_def s_A_def file_save_def put_archivo_def archivo_by_nombre_def commit_def
      next_id_def Let_def)

lemma upload_A_second:
  "upload id 30 1 NoFault req_A2 s_A = (UploadUpdated ''Algebra'' ''2024-1'', s_A2)"
  by (simp add: upload_def req_A2_def strip_examples strip_Algebra upload_try_def get_materia_def
      get_curso_def s_A_def s_A2_def file_save_def put_archivo_def archivo_by_nombre_def commit_def
      next_id_def Let_def)

lemma update_first_length: "length (update_first P g xs) = length xs"
  by (induction xs) auto

lemma update_first_count:
  "(\<And>x. P x \<Longrightarrow> P (g x)) \<Longrightarrow> length (filter P (update_first P g xs)) = length (filter P xs)"
  by (induction xs) auto

lemma update_first_find:
  "(\<And>x. P x \<Longrightarrow> P (g x)) \<Longrightarrow> find P (update_first P g xs) = map_option g (find P xs)"
  by (induction xs) auto

text \<open>
  The handlers keep the keys of the courses distinct: upload adds a course only when none
  has the key, and no other handler writes to the courses.
\<close>

lemma db_upload_except: "db (snd (upload_except e f n s)) = db s"
  by (simp add: upload_except_def Let_def split: sum.splits)

lemma cursos_unique_empty: "cursos_unique (db s_empty)"
  by (simp add: cursos_unique_def s_empty_def)

lemma upload_cursos_unique:
  assumes "cursos_unique (db s)"
  shows "cursos_unique (db (snd (upload sf now uid ft req s)))"
proof (cases "status (fst (upload sf now uid ft req s)) = 200")
  case True
  obtain r s' where u: "upload sf now uid ft req s = (r, s')" by (cases "upload sf now uid ft req s")
  with True have ok: "status r = 200" by simp
  from upload_ok [OF u ok] obtain fname mraw praw materia d1 curso d2 where
    gm: "get_materia ft (strip mraw) (db s) = Inr (materia, d1)" and
    gc: "get_curso ft uid (m_id materia) (strip praw) d1 = Inr (curso, d2)" and
    s': "db s' = snd (put_archivo now uid (c_id curso) (sf fname) d2)"
    by blast
  from get_materia_Inr [OF gm] assms have "cursos_unique d1" by (simp add: cursos_unique_def)
  with get_curso_Inr [OF gc] have "cursos_unique d2" by simp
  with s' put_archivo_keeps [of now uid "c_id curso" "sf fname" d2] u show ?thesis
    by (simp add: cursos_unique_def)
next
  case False
  have "db (snd (upload sf now uid ft req s)) = db s \<or> status (fst (upload sf now uid ft req s)) = 200"
    by (auto simp: upload_def Let_def db_upload_except upload_try_def
        split: option.splits prod.splits sum.splits if_splits)
  with False assms show ?thesis by simp
qed

lemma other_handlers_keep_cursos:
  "cursos (db (snd (delete_file uid ft n s))) = cursos (db s)"
  "cursos (db (snd (rename_file sf uid ft data s))) = cursos (db s)"
  "snd (view_file uid n s) = s" "snd (download_file uid n s) = s"
  "snd (list_files fmt uid q s) = s"
  by (auto simp: delete_file_def rename_file_def view_file_def download_file_def list_files_def
      Let_def split: option.splits sum.splits fault.splits)

text \<open>
  C7: two successful uploads by the same teacher with the same subject name and the same
  period, both after trimming, leave exactly one course of that teacher, subject and
  period: the second upload finds the subject and the course of the first and adds
  neither. The store before the first upload has no two courses with the same key, as
  every store made by these handlers from the empty one has.
\<close>

theorem reupload_reuses_curso:
  assumes "upload sf now1 uid ft1 req1 s0 = (r1, s1)" and "status r1 = 200"
    and "upload sf now2 uid ft2 req2 s1 = (r2, s2)" and "status r2 = 200"
    and "u_materia req1 = Some m1" and "u_materia req2 = Some m2" and "strip m1 = strip m2"
    and "u_periodo req1 = Some p1" and "u_periodo req2 = Some p2" and "strip p1 = strip p2"
    and "cursos_unique (db s0)"
  shows "\<exists>materia. find (\<lambda>m. m_nombre m = strip m1) (materias (db s2)) = Some materia
           \<and> count_cursos uid (m_id materia) (strip p1) (db s2) = 1
           \<and> cursos (db s2) = cursos (db s1) \<and> materias (db s2) = materias (db s1)
           \<and> cursos_unique (db s2)"
proof -
  from upload_ok [OF assms(1,2)] assms(5,8) obtain fn1 materia d1 curso d2 where
    gm: "get_materia ft1 (strip m1) (db s0) = Inr (materia, d1)" and
    gc: "get_curso ft1 uid (m_id materia) (strip p1) d1 = Inr (curso, d2)" and
    s1: "db s1 = snd (put_archivo now1 uid (c_id curso) fn1 d2)"
    by auto
  from get_materia_Inr [OF gm] have
    fm: "find (\<lambda>m. m_nombre m = strip m1) (materias d1) = Some materia" and c1: "cursos d1 = cursos (db s0)"
    by simp_all
  from c1 assms(11) have "cursos_unique d1" by (simp add: cursos_unique_def)
  with get_curso_Inr [OF gc] have
    fc: "find (\<lambda>c. curso_key c = (uid, m_id materia, strip p1)) (cursos d2) = Some curso"
    and m2: "materias d2 = materias d1" and un: "cursos_unique d2"
    by simp_all
  from s1 put_archivo_keeps [of now1 uid "c_id curso" fn1 d2] fm fc m2 un have
    fm1: "find (\<lambda>m. m_nombre m = strip m1) (materias (db s1)) = Some materia" and
    fc1: "find (\<lambda>c. curso_key c = (uid, m_id materia, strip p1)) (cursos (db s1)) = Some curso" and
    un1: "cursos_unique (db s1)"
    by (simp_all add: cursos_unique_def)
  from upload_ok [OF assms(3,4)] assms(6,9) obtain fn2 materia' d1' curso' d2' where
    gm': "get_materia ft2 (strip m2) (db s1) = Inr (materia', d1')" and
    gc': "get_curso ft2 uid (m_id materia') (strip p2) d1' = Inr (curso', d2')" and
    s2: "db s2 = snd (put_archivo now2 uid (c_id curso') fn2 d2')"
    by auto
  from gm' get_materia_found [OF fm1, of ft2] assms(7) have e1: "materia' = materia" "d1' = db s1"
    by simp_all
  from gc' e1 get_curso_found [OF fc1, of ft2] assms(10) have e2: "curso' = curso" "d2' = db s1"
    by simp_all
  from s2 e2 put_archivo_keeps [of now2 uid "c_id curso" fn2 "db s1"] have
    k: "cursos (db s2) = cursos (db s1)" "materias (db s2) = materias (db s1)"
    by simp_all
  from un1 fc1 have "count_cursos uid (m_id materia) (strip p1) (db s1) = 1"
    unfolding count_cursos_def cursos_unique_def by (rule count_one)
  with k fm1 un1 show ?thesis
    by (auto simp: count_cursos_def cursos_unique_def)
qed

theorem reupload_reuses_curso_witness:
  "cursos_unique (db s_empty) \<and> count_cursos 1 1 ''2024-1'' (db s_A2) = 1
   \<and> cursos (db s_A2) = cursos (db s_A) \<and> length (cursos (db s_A2)) = 1"
  using reupload_reuses_curso [OF upload_A_first _ upload_A_second, of "''Algebra''" "''Algebra ''"
      "'' 2024-1 ''" "''2024-1''"]
  by (simp add: req_A_def req_A2_def strip_examples strip_Algebra cursos_unique_def s_empty_def
      s_A_def s_A2_def count_cursos_def curso_key_def)

text \<open>
  C8: a successful upload whose sanitized filename names an existing file record answers
  that the file was updated; the first record of that name gets the new timestamp, the
  uploading teacher and the course of the upload, in place, and no record is added: the
  number of records of that name is unchanged, so it stays 1 when it was 1.
\<close>

theorem reupload_updates_record:
  assumes "upload sf now uid ft req s = (r, s')" and "status r = 200"
    and "u_file req = Some (fname, payload)" and "u_periodo req = Some periodo_raw"
    and "archivo_by_nombre (sf fname) (db s) = Some a"
  shows "\<exists>c \<in> set (cursos (db s')).
           c_docente_id c = uid \<and> c_periodo c = strip periodo_raw
           \<and> archivos (db s') =
               update_first (\<lambda>x. a_nombre x = sf fname)
                 (\<lambda>x. x\<lparr>a_fecha_subida := now, a_docente_id := uid, a_curso_id := c_id c\<rparr>)
                 (archivos (db s))
           \<and> archivo_by_nombre (sf fname) (db s') =
               Some (a\<lparr>a_fecha_subida := now, a_docente_id := uid, a_curso_id := c_id c\<rparr>)
           \<and> count_archivos (sf fname) (db s') = count_archivos (sf fname) (db s)
           \<and> (count_archivos (sf fname) (db s) = 1 \<longrightarrow> count_archivos (sf fname) (db s') = 1)
           \<and> length (archivos (db s')) = length (archivos (db s))
           \<and> (\<exists>m. r = UploadUpdated m (strip periodo_raw))"
proof -
  from upload_ok [OF assms(1,2)] obtain fname' payload' mraw praw materia d1 curso d2 where
    uf: "u_file req = Some (fname', payload')" and up: "u_periodo req = Some praw" and
    gm: "get_materia ft (strip mraw) (db s) = Inr (materia, d1)" and
    gc0: "get_curso ft uid (m_id materia) (strip praw) d1 = Inr (curso, d2)" and
    s0: "db s' = snd (put_archivo now uid (c_id curso) (sf fname') d2)" and
    r0: "r = (if fst (put_archivo now uid (c_id curso) (sf fname') d2)
             then UploadUpdated (m_nombre materia) (strip praw)
             else UploadCreated (m_nombre materia) (strip praw))"
    by blast
  from uf assms(3) have fe: "fname' = fname" by simp
  from up assms(4) have pe: "praw = periodo_raw" by simp
  note gc = gc0 [unfolded pe] and s' = s0 [unfolded fe] and r = r0 [unfolded fe pe]
  let ?g = "\<lambda>x. x\<lparr>a_fecha_subida := now, a_docente_id := uid, a_curso_id := c_id curso\<rparr>"
  let ?P = "\<lambda>x. a_nombre x = sf fname"
  from get_materia_Inr [OF gm] get_curso_Inr [OF gc] have
    ar: "archivos d2 = archivos (db s)" and
    fc: "find (\<lambda>c. curso_key c = (uid, m_id materia, strip periodo_raw)) (cursos d2) = Some curso"
    by simp_all
  from ar assms(5) have ex: "archivo_by_nombre (sf fname) d2 = Some a"
    by (simp add: archivo_by_nombre_def)
  then have pa: "put_archivo now uid (c_id curso) (sf fname) d2 =
                   (True, d2\<lparr>archivos := update_first ?P ?g (archivos d2)\<rparr>)"
    by (simp add: put_archivo_def)
  from find_Some_set [OF fc] have cin: "curso \<in> set (cursos d2)" and
    ck: "c_docente_id curso = uid" "c_periodo curso = strip periodo_raw"
    by (simp_all add: curso_key_def)
  from s' pa ar have a': "archivos (db s') = update_first ?P ?g (archivos (db s))" and
    c': "cursos (db s') = cursos d2"
    by simp_all
  have keep: "\<And>x. ?P x \<Longrightarrow> ?P (?g x)" by simp
  from a' assms(5) have f': "archivo_by_nombre (sf fname) (db s') = Some (?g a)"
    by (simp add: archivo_by_nombre_def update_first_find [of ?P ?g, OF keep])
  from a' have n': "count_archivos (sf fname) (db s') = count_archivos (sf fname) (db s)"
    by (simp add: count_archivos_def update_first_count [of ?P ?g, OF keep])
  from a' have l': "length (archivos (db s')) = length (archivos (db s))"
    by (simp add: update_first_length)
  from r pa have r': "r = UploadUpdated (m_nombre materia) (strip periodo_raw)" by simp
  from cin c' have "curso \<in> set (cursos (db s'))" by simp
  with ck a' f' n' l' r' show ?thesis
    by (intro bexI [of _ curso]) simp_all
qed

theorem reupload_updates_record_witness:
  "archivo_by_nombre ''A.pdf'' (db s_A) \<noteq> None
   \<and> archivos (db s_A2) = [\<lparr>a_id = 1, a_nombre = ''A.pdf'', a_fecha_subida = 30, a_docente_id = 1,
                             a_curso_id = 1\<rparr>]
   \<and> count_archivos ''A.pdf'' (db s_A) = 1 \<and> count_archivos ''A.pdf'' (db s_A2) = 1"
  using reupload_updates_record [OF upload_A_second, of "''A.pdf''" "''newer bytes''" "''2024-1''"]
  by (simp add: req_A2_def s_A_def s_A2_def archivo_by_nombre_def count_archivos_def)

section \<open>List and search\<close>























end
